theory Spec2Isabelle
  imports Complex_Main "HOL-Library.Sublist"
begin

section \<open>The volatility dashboard (app.py)\<close>

text \<open>
  app.py is one Streamlit script: every user interaction runs it from top to bottom,
  which is one render pass. The pass is modelled as the function \<open>render\<close> from the file
  system and the sidebar controls to the list of elements shown and the way the pass ended.

  What pandas, Plotly and Streamlit do is library behaviour; it is written out here where
  the script depends on it, and each such place says so.
  \<^item> A pandas \<open>Timestamp\<close> is the number of nanoseconds since the epoch, a
    \<open>datetime.date\<close> the number of days since the epoch; \<open>NaT\<close> is \<open>None\<close>.
  \<^item> A \<open>float64\<close> is a real number or \<open>NaN\<close> (\<open>None\<close>): rounding and the
    infinities are not modelled. The volatility columns are numeric columns.
  \<^item> Labels are kept without their emoji and inner quotes; colours, layout and widths of
    the charts are left out.
\<close>

subsection \<open>Data\<close>

type_synonym timestamp = int
type_synonym date = int
type_synonym float = "real option"

definition date_of :: "timestamp \<Rightarrow> date" where
  "date_of t = t div 86400000000000"

datatype py_error = FileNotFoundError | PermissionError | ValueError | KeyError

text \<open>
  The file as \<open>pd.read_csv\<close> sees it. A cell of the \<open>Date\<close> column is blank, a text
  that pandas parses into a timestamp, or a text that it cannot parse. The other cells of a
  line are its numbers by column name; a blank cell is \<open>NaN\<close>. The header lists the column
  names; the date cell of a line counts only when the header has \<open>Date\<close>.
\<close>

datatype date_cell = Blank | Parsable timestamp | Unparsable

record csv_row =
  date_text :: date_cell
  num_cells :: "(string \<times> float) list"

datatype source_file = NoFile | Unreadable | Csv "string list" "csv_row list"

type_synonym filesystem = "string \<Rightarrow> source_file"

text \<open>
  A \<open>DataFrame\<close> after the load: the column names, and the rows in index order. A row has
  its timestamp and its numeric cells by column name.
\<close>

record row =
  Date :: "timestamp option"
  cells :: "(string \<times> float) list"

record frame =
  columns :: "string list"
  rows :: "row list"

subsection \<open>Series and frame operations of pandas used by the script\<close>

text \<open>\<open>df[c]\<close> for a numeric column: \<open>KeyError\<close> when the frame has no such column; a row
  without the cell reads as \<open>NaN\<close>.\<close>

definition cell :: "string \<Rightarrow> row \<Rightarrow> float" where
  "cell c r = (case map_of (cells r) c of None \<Rightarrow> None | Some v \<Rightarrow> v)"

definition getcol :: "frame \<Rightarrow> string \<Rightarrow> py_error + float list" where
  "getcol df c = (if c \<in> set (columns df) then Inr (map (cell c) (rows df)) else Inl KeyError)"

text \<open>\<open>df['Date']\<close>, which every loaded frame has.\<close>

definition date_col :: "frame \<Rightarrow> timestamp option list" where
  "date_col df = map Date (rows df)"

text \<open>\<open>df.empty\<close>: an axis of length 0.\<close>

definition empty_frame :: "frame \<Rightarrow> bool" where
  "empty_frame df = (rows df = [] \<or> columns df = [])"

text \<open>\<open>s.dt.date\<close>, and the comparison of that series with a date: a missing date
  compares false.\<close>

definition dt_date :: "timestamp option list \<Rightarrow> date option list" where
  "dt_date s = map (map_option date_of) s"

definition series_ge :: "date option list \<Rightarrow> date \<Rightarrow> bool list" where
  "series_ge s d = map (\<lambda>x. case x of None \<Rightarrow> False | Some v \<Rightarrow> v \<ge> d) s"

definition series_le :: "date option list \<Rightarrow> date \<Rightarrow> bool list" where
  "series_le s d = map (\<lambda>x. case x of None \<Rightarrow> False | Some v \<Rightarrow> v \<le> d) s"

definition series_and :: "bool list \<Rightarrow> bool list \<Rightarrow> bool list" where
  "series_and a b = map2 (\<and>) a b"

text \<open>\<open>df.loc[mask]\<close> with a boolean series on the frame's own index.\<close>

definition loc :: "frame \<Rightarrow> bool list \<Rightarrow> frame" where
  "loc df m = df\<lparr>rows := map snd (filter fst (zip m (rows df)))\<rparr>"

text \<open>\<open>s.min()\<close> and \<open>s.max()\<close> skip \<open>NaT\<close> and give \<open>NaT\<close> when nothing is left;
  \<open>.date()\<close> of \<open>NaT\<close> raises \<open>ValueError\<close>.\<close>

fun dropnat :: "timestamp option list \<Rightarrow> timestamp list" where
  "dropnat [] = []"
| "dropnat (None # s) = dropnat s"
| "dropnat (Some t # s) = t # dropnat s"

definition series_min :: "timestamp option list \<Rightarrow> timestamp option" where
  "series_min s = (case dropnat s of [] \<Rightarrow> None | t # ts \<Rightarrow> Some (fold min ts t))"

definition series_max :: "timestamp option list \<Rightarrow> timestamp option" where
  "series_max s = (case dropnat s of [] \<Rightarrow> None | t # ts \<Rightarrow> Some (fold max ts t))"

definition ts_date :: "timestamp option \<Rightarrow> py_error + date" where
  "ts_date t = (case t of None \<Rightarrow> Inl ValueError | Some v \<Rightarrow> Inr (date_of v))"

text \<open>Arithmetic on floats and series: \<open>NaN\<close> propagates; \<open>mean\<close> skips \<open>NaN\<close> and is
  \<open>NaN\<close> when nothing is left. A division by zero gives no finite number.\<close>

definition fsub :: "float \<Rightarrow> float \<Rightarrow> float" where
  "fsub a b = (case a of None \<Rightarrow> None | Some x \<Rightarrow> (case b of None \<Rightarrow> None | Some y \<Rightarrow> Some (x - y)))"

definition fmul :: "float \<Rightarrow> float \<Rightarrow> float" where
  "fmul a b = (case a of None \<Rightarrow> None | Some x \<Rightarrow> (case b of None \<Rightarrow> None | Some y \<Rightarrow> Some (x * y)))"

definition fdiv :: "float \<Rightarrow> float \<Rightarrow> float" where
  "fdiv a b = (case a of None \<Rightarrow> None | Some x \<Rightarrow>
     (case b of None \<Rightarrow> None | Some y \<Rightarrow> if y = 0 then None else Some (x / y)))"

definition series_sub :: "float list \<Rightarrow> float list \<Rightarrow> float list" where
  "series_sub a b = map2 fsub a b"

definition series_pow2 :: "float list \<Rightarrow> float list" where
  "series_pow2 s = map (map_option (\<lambda>x. x ^ 2)) s"

fun dropna :: "float list \<Rightarrow> real list" where
  "dropna [] = []"
| "dropna (None # s) = dropna s"
| "dropna (Some v # s) = v # dropna s"

definition series_mean :: "float list \<Rightarrow> float" where
  "series_mean s = (let vs = dropna s in if vs = [] then None else Some (sum_list vs / real (length vs)))"

definition pow_half :: "float \<Rightarrow> float" where
  "pow_half a = (case a of None \<Rightarrow> None | Some x \<Rightarrow> if x < 0 then None else Some (sqrt x))"

subsection \<open>LOAD DATA\<close>

definition data_path :: string where
  "data_path = ''/content/crypto_volatility_forecast_results.csv''"

text \<open>
  \<open>pd.read_csv(path, parse_dates=['Date'])\<close>: \<open>FileNotFoundError\<close> for a missing file,
  another \<open>OSError\<close> for one that cannot be read, \<open>ValueError\<close> when the column named in
  \<open>parse_dates\<close> is missing. A date column with a text that does not parse is returned
  unaltered, as text.
\<close>

definition read_csv :: "filesystem \<Rightarrow> string \<Rightarrow> py_error + (string list \<times> csv_row list)" where
  "read_csv fs path =
     (case fs path of
        NoFile \<Rightarrow> Inl FileNotFoundError
      | Unreadable \<Rightarrow> Inl PermissionError
      | Csv header lines \<Rightarrow>
          if ''Date'' \<in> set header then Inr (header, lines) else Inl ValueError)"

text \<open>\<open>pd.to_datetime(s)\<close> with its default \<open>errors='raise'\<close>: a text that does not
  parse raises; a blank cell becomes \<open>NaT\<close>.\<close>

definition cell_timestamp :: "date_cell \<Rightarrow> timestamp option" where
  "cell_timestamp c = (case c of Blank \<Rightarrow> None | Parsable t \<Rightarrow> Some t | Unparsable \<Rightarrow> None)"

definition to_datetime :: "date_cell list \<Rightarrow> py_error + timestamp option list" where
  "to_datetime s =
     (if Unparsable \<in> set s then Inl ValueError else Inr (map cell_timestamp s))"

definition load_data :: "filesystem \<Rightarrow> py_error + frame" where
  "load_data fs =
     (case read_csv fs data_path of
        Inl e \<Rightarrow> Inl e
      | Inr (header, lines) \<Rightarrow>
          (case to_datetime (map date_text lines) of
             Inl e \<Rightarrow> Inl e
           | Inr ds \<Rightarrow>
               Inr \<lparr>columns = header,
                    rows = map2 (\<lambda>d l. \<lparr>Date = d, cells = num_cells l\<rparr>) ds lines\<rparr>))"

subsection \<open>SIDEBAR CONTROLS\<close>

text \<open>What the user has set: the range of the slider (\<open>None\<close> while untouched, which
  gives the default, the whole range) and the two checkboxes. Streamlit offers the user
  only ranges with \<open>min_date \<le> start_date \<le> end_date \<le> max_date\<close>; the model takes the
  range as it comes, and what the widget itself checks is outside it.\<close>

record controls =
  date_range :: "(date \<times> date) option"
  show_garch :: bool
  show_lstm :: bool

definition min_date :: "frame \<Rightarrow> py_error + date" where
  "min_date df = ts_date (series_min (date_col df))"

definition max_date :: "frame \<Rightarrow> py_error + date" where
  "max_date df = ts_date (series_max (date_col df))"

definition slider :: "date \<Rightarrow> date \<Rightarrow> (date \<times> date) option \<Rightarrow> date \<times> date" where
  "slider lo hi sel = (case sel of None \<Rightarrow> (lo, hi) | Some r \<Rightarrow> r)"

definition mask_df :: "frame \<Rightarrow> date \<Rightarrow> date \<Rightarrow> bool list" where
  "mask_df df start_date end_date =
     series_and (series_ge (dt_date (date_col df)) start_date)
                (series_le (dt_date (date_col df)) end_date)"

definition df_filtered :: "frame \<Rightarrow> date \<Rightarrow> date \<Rightarrow> frame" where
  "df_filtered df start_date end_date = loc df (mask_df df start_date end_date)"

subsection \<open>What a pass shows\<close>

text \<open>\<open>Fmt n v s\<close> is the f-string \<open>{v:.nf}\<close> followed by \<open>s\<close>.\<close>

datatype label = Lit string | Fmt nat float string

record trace =
  tr_name :: string
  tr_x :: "timestamp option list"
  tr_y :: "float list"

datatype figure = Figure "trace list" | Histogram string "float list" nat

datatype widget =
    Title string
  | Markdown string
  | Error string
  | SidebarHeader string
  | Slider date date "date \<times> date"
  | Checkbox string bool
  | Subheader string
  | Metric string label "label option"
  | Info string
  | PlotlyChart figure
  | Dataframe frame
  | Caption string

text \<open>A section of the script: what it has shown, and the exception that ended it, if
  one did.\<close>

type_synonym section_result = "widget list \<times> py_error option"

text \<open>A step that may raise: the section ends there, with what it has shown so far.\<close>

definition raising ::
  "widget list \<Rightarrow> py_error + 'a \<Rightarrow> ('a \<Rightarrow> section_result) \<Rightarrow> section_result" where
  "raising out x k = (case x of Inl e \<Rightarrow> (out, Some e) | Inr v \<Rightarrow> k v)"

subsection \<open>KEY METRICS\<close>

definition rmse :: "float list \<Rightarrow> float list \<Rightarrow> float" where
  "rmse actual pred = pow_half (series_mean (series_pow2 (series_sub actual pred)))"

text \<open>\<open>NaN != 0\<close> is true, so a \<open>NaN\<close> RMSE takes the first branch.\<close>

definition improvement :: "float \<Rightarrow> float \<Rightarrow> float" where
  "improvement rmse_garch rmse_lstm =
     (if rmse_garch \<noteq> Some 0
      then fmul (fdiv (fsub rmse_garch rmse_lstm) rmse_garch) (Some 100)
      else Some 0)"

definition no_data :: string where
  "no_data = ''No data in selected date range.''"

text \<open>The three columns are read before the test for an empty table.\<close>

definition key_metrics :: "frame \<Rightarrow> section_result" where
  "key_metrics dff =
     (let out = [Subheader ''Model Performance at a Glance''] in
      raising out (getcol dff ''Actual_Volatility'') (\<lambda>actual.
      raising out (getcol dff ''GARCH_Volatility'') (\<lambda>garch_pred.
      raising out (getcol dff ''Predicted_Volatility'') (\<lambda>lstm_pred.
        if \<not> empty_frame dff then
          let rmse_garch = rmse actual garch_pred;
              rmse_lstm = rmse actual lstm_pred;
              imp = improvement rmse_garch rmse_lstm
          in (out @ [Metric ''GARCH RMSE'' (Fmt 4 rmse_garch []) None,
                     Metric ''LSTM+GARCH RMSE'' (Fmt 4 rmse_lstm []) (Some (Fmt 1 imp ''%'')),
                     Metric ''Improvement'' (Fmt 1 imp ''%'') (Some (Lit ''vs GARCH''))], None)
        else (out @ [Info no_data, Info no_data, Info no_data], None)))))"

subsection \<open>MAIN CHART\<close>

text \<open>\<open>go.Scatter(x=df_filtered['Date'], y=df_filtered[c], name=nm)\<close>.\<close>

definition scatter :: "frame \<Rightarrow> string \<Rightarrow> string \<Rightarrow> py_error + trace" where
  "scatter dff c nm =
     (case getcol dff c of
        Inl e \<Rightarrow> Inl e
      | Inr y \<Rightarrow> Inr \<lparr>tr_name = nm, tr_x = date_col dff, tr_y = y\<rparr>)"

text \<open>A trace added under a checkbox: no trace, and no read of the column, when it is
  off.\<close>

definition add_trace_if :: "bool \<Rightarrow> py_error + trace \<Rightarrow> py_error + trace list" where
  "add_trace_if b t =
     (if b then (case t of Inl e \<Rightarrow> Inl e | Inr v \<Rightarrow> Inr [v]) else Inr [])"

definition main_chart :: "frame \<Rightarrow> bool \<Rightarrow> bool \<Rightarrow> section_result" where
  "main_chart dff sg sl =
     (let out = [Subheader ''Volatility Forecast vs Actual''] in
      raising out (scatter dff ''Actual_Volatility'' ''Actual Volatility'') (\<lambda>t_actual.
      raising out (add_trace_if sg (scatter dff ''GARCH_Volatility'' ''GARCH Forecast''))
        (\<lambda>t_garch.
      raising out
        (add_trace_if sl (scatter dff ''Predicted_Volatility'' ''LSTM+GARCH Forecast''))
        (\<lambda>t_lstm.
        (out @ [PlotlyChart (Figure ([t_actual] @ t_garch @ t_lstm))], None)))))"

subsection \<open>ERROR DISTRIBUTION\<close>

definition residuals :: "frame \<Rightarrow> string \<Rightarrow> py_error + float list" where
  "residuals dff c =
     (case getcol dff ''Actual_Volatility'' of
        Inl e \<Rightarrow> Inl e
      | Inr a \<Rightarrow> (case getcol dff c of Inl e \<Rightarrow> Inl e | Inr p \<Rightarrow> Inr (series_sub a p)))"

definition no_data_errors :: string where
  "no_data_errors = ''No data in selected date range to display error distribution.''"

definition error_distribution :: "frame \<Rightarrow> section_result" where
  "error_distribution dff =
     (let out = [Subheader ''Forecast Error Distribution''] in
      if \<not> empty_frame dff then
        raising out (residuals dff ''GARCH_Volatility'') (\<lambda>eg.
          let out1 = out @ [PlotlyChart (Histogram ''GARCH Forecast Errors'' eg 30)] in
          raising out1 (residuals dff ''Predicted_Volatility'') (\<lambda>el.
            (out1 @ [PlotlyChart (Histogram ''LSTM+GARCH Forecast Errors'' el 30)], None)))
      else (out @ [Info no_data_errors], None))"

subsection \<open>DATA TABLE and FOOTER\<close>

definition data_table :: "frame \<Rightarrow> section_result" where
  "data_table dff = ([Subheader ''Raw Forecast Data (Filtered)'', Dataframe dff], None)"

definition footer :: section_result where
  "footer = ([Markdown ''---'', Caption ''Built by'', Caption ''Hybrid volatility model''], None)"

subsection \<open>The render pass\<close>

text \<open>A pass ends by reaching the end of the script, by \<open>st.stop()\<close>, or by an exception
  that nothing catches.\<close>

datatype outcome = Finished | Stopped | Raised py_error

record pass =
  shown :: "widget list"
  outcome :: outcome

fun run_sections :: "widget list \<Rightarrow> section_result list \<Rightarrow> pass" where
  "run_sections acc [] = \<lparr>shown = acc, outcome = Finished\<rparr>"
| "run_sections acc ((ws, None) # rest) = run_sections (acc @ ws) rest"
| "run_sections acc ((ws, Some e) # rest) = \<lparr>shown = acc @ ws, outcome = Raised e\<rparr>"

definition page_header :: "widget list" where
  "page_header = [Title ''Crypto Volatility Forecasting Dashboard'',
                  Markdown ''Hybrid GARCH + LSTM Model'']"

definition not_found :: string where
  "not_found = ''Data file crypto_volatility_forecast_results.csv not found.''"

text \<open>The script from the slider on, for a loaded table with the dates \<open>lo\<close> and \<open>hi\<close>
  as the slider's bounds and \<open>sel\<close> as the range it returns.\<close>

definition sections :: "frame \<Rightarrow> controls \<Rightarrow> date \<Rightarrow> date \<Rightarrow> date \<times> date \<Rightarrow> pass" where
  "sections df ctl lo hi sel =
     (let start_date = fst sel; end_date = snd sel;
          dff = df_filtered df start_date end_date
      in run_sections
           (page_header @
            [SidebarHeader ''Dashboard Controls'',
             Slider lo hi sel,
             Checkbox ''Show GARCH Forecast'' (show_garch ctl),
             Checkbox ''Show LSTM+GARCH Forecast'' (show_lstm ctl)])
           [key_metrics dff, main_chart dff (show_garch ctl) (show_lstm ctl),
            error_distribution dff, data_table dff, footer])"

definition render :: "filesystem \<Rightarrow> controls \<Rightarrow> pass" where
  "render fs ctl =
     (case load_data fs of
        Inl e \<Rightarrow>
          (if e = FileNotFoundError
           then \<lparr>shown = page_header @ [Error not_found], outcome = Stopped\<rparr>
           else \<lparr>shown = page_header, outcome = Raised e\<rparr>)
      | Inr df \<Rightarrow>
          (let side = page_header @ [SidebarHeader ''Dashboard Controls''] in
           case min_date df of
             Inl e \<Rightarrow> \<lparr>shown = side, outcome = Raised e\<rparr>
           | Inr lo \<Rightarrow>
               (case max_date df of
                  Inl e \<Rightarrow> \<lparr>shown = side, outcome = Raised e\<rparr>
                | Inr hi \<Rightarrow> sections df ctl lo hi (slider lo hi (date_range ctl)))))"

section \<open>The specification's notions\<close>

text \<open>A record is in the range when it has a date and the date lies between the two
  bounds, both included.\<close>

definition in_range :: "date \<Rightarrow> date \<Rightarrow> row \<Rightarrow> bool" where
  "in_range start_date end_date r =
     (case Date r of None \<Rightarrow> False
      | Some t \<Rightarrow> start_date \<le> date_of t \<and> date_of t \<le> end_date)"

text \<open>The table has the three volatility columns of the documented schema.\<close>

definition has_schema :: "frame \<Rightarrow> bool" where
  "has_schema df =
     (''Actual_Volatility'' \<in> set (columns df) \<and>
      ''GARCH_Volatility'' \<in> set (columns df) \<and>
      ''Predicted_Volatility'' \<in> set (columns df))"

definition column :: "frame \<Rightarrow> string \<Rightarrow> float list" where
  "column df c = map (cell c) (rows df)"

definition actual_of :: "frame \<Rightarrow> float list" where
  "actual_of df = column df ''Actual_Volatility''"

definition garch_of :: "frame \<Rightarrow> float list" where
  "garch_of df = column df ''GARCH_Volatility''"

definition hybrid_of :: "frame \<Rightarrow> float list" where
  "hybrid_of df = column df ''Predicted_Volatility''"

text \<open>
  The RMSE in the specification's words: the records where both the actual value and the
  prediction are present, and the square root of the mean of their squared differences.
  With no such record the mean is undefined, which is \<open>NaN\<close>.
\<close>

definition both_present :: "float list \<Rightarrow> float list \<Rightarrow> (real \<times> real) list" where
  "both_present actual pred =
     concat (map (\<lambda>(a, p). case a of None \<Rightarrow> []
                   | Some x \<Rightarrow> (case p of None \<Rightarrow> [] | Some y \<Rightarrow> [(x, y)]))
                 (zip actual pred))"

definition rmse_spec :: "float list \<Rightarrow> float list \<Rightarrow> float" where
  "rmse_spec actual pred =
     (let ps = both_present actual pred in
      if ps = [] then None
      else Some (sqrt ((\<Sum>(a, p)\<leftarrow>ps. (a - p) ^ 2) / real (length ps))))"

text \<open>The outputs that the specification calls metrics, charts and table.\<close>

definition is_view :: "widget \<Rightarrow> bool" where
  "is_view w = (case w of Metric l v d \<Rightarrow> True | PlotlyChart f \<Rightarrow> True
                | Dataframe t \<Rightarrow> True | _ \<Rightarrow> False)"

definition empty_series :: "string \<Rightarrow> trace" where
  "empty_series nm = \<lparr>tr_name = nm, tr_x = [], tr_y = []\<rparr>"

text \<open>The points of a series of the overlay chart, and the column a series is read from.\<close>

definition points :: "trace \<Rightarrow> (timestamp option \<times> float) list" where
  "points t = zip (tr_x t) (tr_y t)"

definition column_points :: "frame \<Rightarrow> string \<Rightarrow> (timestamp option \<times> float) list" where
  "column_points df c = map (\<lambda>r. (Date r, cell c r)) (rows df)"

subsection \<open>Concrete inputs\<close>

definition day :: "int \<Rightarrow> timestamp" where
  "day n = n * 86400000000000"

definition header4 :: "string list" where
  "header4 = [''Date'', ''Actual_Volatility'', ''GARCH_Volatility'', ''Predicted_Volatility'']"

definition line :: "date_cell \<Rightarrow> float \<Rightarrow> float \<Rightarrow> float \<Rightarrow> csv_row" where
  "line d a g p =
     \<lparr>date_text = d,
      num_cells = [(''Actual_Volatility'', a), (''GARCH_Volatility'', g),
                   (''Predicted_Volatility'', p)]\<rparr>"

definition disk :: "source_file \<Rightarrow> filesystem" where
  "disk f = (\<lambda>p. if p = data_path then f else NoFile)"

text \<open>The specification's scenario: actual 1, 2, 3, GARCH 1, 2, 3, hybrid 2, 3, 4, here on
  the days 1, 2 and 10.\<close>

definition scenario_file :: source_file where
  "scenario_file =
     Csv header4 [line (Parsable (day 1)) (Some 1) (Some 1) (Some 2),
                  line (Parsable (day 2)) (Some 2) (Some 2) (Some 3),
                  line (Parsable (day 10)) (Some 3) (Some 3) (Some 4)]"

definition scenario_frame :: frame where
  "scenario_frame =
     \<lparr>columns = header4,
      rows = [\<lparr>Date = Some (day 1), cells = num_cells (line Blank (Some 1) (Some 1) (Some 2))\<rparr>,
              \<lparr>Date = Some (day 2), cells = num_cells (line Blank (Some 2) (Some 2) (Some 3))\<rparr>,
              \<lparr>Date = Some (day 10), cells = num_cells (line Blank (Some 3) (Some 3) (Some 4))\<rparr>]\<rparr>"

definition gap_controls :: controls where
  "gap_controls = \<lparr>date_range = Some (3, 5), show_garch = True, show_lstm = False\<rparr>"


definition bad_date_file :: source_file where
  "bad_date_file =
     Csv header4 [line (Parsable (day 1)) (Some 1) (Some 1) (Some 2),
                  line Unparsable (Some 2) (Some 2) (Some 3)]"


text \<open>The same table with the two forecasts exchanged.\<close>

definition swapped_frame :: frame where
  "swapped_frame =
     \<lparr>columns = header4,
      rows = [\<lparr>Date = Some (day 1), cells = num_cells (line Blank (Some 1) (Some 2) (Some 1))\<rparr>,
              \<lparr>Date = Some (day 2), cells = num_cells (line Blank (Some 2) (Some 3) (Some 2))\<rparr>,
              \<lparr>Date = Some (day 10), cells = num_cells (line Blank (Some 3) (Some 4) (Some 3))\<rparr>]\<rparr>"

section \<open>Properties\<close>

subsection \<open>The date filter\<close>

lemma select_by_mask: "map snd (filter fst (zip (map P xs) xs)) = filter P xs"
  by (induction xs) auto

lemma mask_df_in_range: "mask_df df s e = map (in_range s e) (rows df)"
  unfolding mask_df_def series_and_def series_ge_def series_le_def dt_date_def date_col_def
  by (induction "rows df" arbitrary: df)
     (auto simp: in_range_def map2_map_map split: option.splits)

lemma rows_df_filtered: "rows (df_filtered df s e) = filter (in_range s e) (rows df)"
  by (simp add: df_filtered_def loc_def mask_df_in_range select_by_mask)

lemma columns_df_filtered: "columns (df_filtered df s e) = columns df"
  by (simp add: df_filtered_def loc_def)

text \<open>
  C1. For every table and every range of dates, hence for every range that the slider can
  give, the filtered table has exactly the records whose date lies in the range, bounds
  included, in the order of the table (and the same columns). It is a table in every case:
  it has no record exactly when no record of the table is in the range.
\<close>

theorem filter_exact:
  "rows (df_filtered df s e) = filter (in_range s e) (rows df)
   \<and> subseq (rows (df_filtered df s e)) (rows df)
   \<and> columns (df_filtered df s e) = columns df
   \<and> (rows (df_filtered df s e) = [] \<longleftrightarrow> \<not> list_ex (in_range s e) (rows df))"
proof -
  have r: "rows (df_filtered df s e) = filter (in_range s e) (rows df)"
    by (rule rows_df_filtered)
  show ?thesis
    unfolding r columns_df_filtered by (simp add: filter_empty_conv list_ex_iff)
qed

text \<open>On the scenario's table, the range of the days 1 to 2 keeps the first two records.\<close>

lemma filter_scenario:
  "map Date (rows (df_filtered scenario_frame 1 2)) = [Some (day 1), Some (day 2)]"
  by (simp add: rows_df_filtered scenario_frame_def in_range_def date_of_def day_def)

text \<open>
  C10. Filtering a filtered table again by the same range gives the same table: the same
  records in the same order.
\<close>

theorem filter_idempotent:
  "df_filtered (df_filtered df s e) s e = df_filtered df s e"
proof -
  have "rows (df_filtered (df_filtered df s e) s e) = rows (df_filtered df s e)"
    by (simp add: rows_df_filtered)
  moreover have "columns (df_filtered (df_filtered df s e) s e) = columns (df_filtered df s e)"
    by (simp add: columns_df_filtered)
  ultimately show ?thesis by simp
qed

subsection \<open>The metrics\<close>

lemma dropna_squares:
  "dropna (series_pow2 (series_sub actual pred)) =
     map (\<lambda>(a, p). (a - p) ^ 2) (both_present actual pred)"
  unfolding series_pow2_def series_sub_def both_present_def
  by (induction actual pred rule: list_induct2') (auto simp: fsub_def split: option.splits)

lemma sum_squares_nonneg: "0 \<le> (\<Sum>(a, p)\<leftarrow>ps. (a - p) ^ 2 :: real)"
  by (rule sum_list_nonneg) auto

lemma rmse_is_spec: "rmse actual pred = rmse_spec actual pred"
proof (cases "both_present actual pred = []")
  case True
  then show ?thesis
    by (simp add: rmse_def rmse_spec_def series_mean_def dropna_squares pow_half_def)
next
  case False
  have "0 \<le> (\<Sum>(a, p)\<leftarrow>both_present actual pred. (a - p) ^ 2)
              / real (length (both_present actual pred))"
    using sum_squares_nonneg by simp
  with False show ?thesis
    by (simp add: rmse_def rmse_spec_def series_mean_def dropna_squares pow_half_def Let_def)
qed

lemma getcol_present: "c \<in> set (columns df) \<Longrightarrow> getcol df c = Inr (column df c)"
  by (simp add: getcol_def column_def)

lemma getcol_absent: "c \<notin> set (columns df) \<Longrightarrow> getcol df c = Inl KeyError"
  by (simp add: getcol_def)

lemma schema_columns: "has_schema df \<Longrightarrow> columns df \<noteq> []"
  by (auto simp: has_schema_def)

lemma key_metrics_nonempty:
  assumes "has_schema dff" and "rows dff \<noteq> []"
  shows "key_metrics dff =
           ([Subheader ''Model Performance at a Glance'',
             Metric ''GARCH RMSE''
               (Fmt 4 (rmse (actual_of dff) (garch_of dff)) [])
               None,
             Metric ''LSTM+GARCH RMSE''
               (Fmt 4 (rmse (actual_of dff) (hybrid_of dff)) [])
               (Some (Fmt 1 (improvement
                  (rmse (actual_of dff) (garch_of dff))
                  (rmse (actual_of dff) (hybrid_of dff)))
                  ''%'')),
             Metric ''Improvement''
               (Fmt 1 (improvement
                  (rmse (actual_of dff) (garch_of dff))
                  (rmse (actual_of dff) (hybrid_of dff)))
                  ''%'')
               (Some (Lit ''vs GARCH''))], None)"
proof -
  from assms(1) have g:
    "getcol dff ''Actual_Volatility'' = Inr (actual_of dff)"
    "getcol dff ''GARCH_Volatility'' = Inr (garch_of dff)"
    "getcol dff ''Predicted_Volatility'' = Inr (hybrid_of dff)"
    by (simp_all add: has_schema_def getcol_present actual_of_def garch_of_def hybrid_of_def)
  from assms have "\<not> empty_frame dff"
    by (simp add: empty_frame_def schema_columns)
  then show ?thesis
    by (simp add: key_metrics_def raising_def g Let_def)
qed

lemma key_metrics_empty:
  assumes "has_schema dff" and "rows dff = []"
  shows "key_metrics dff =
           ([Subheader ''Model Performance at a Glance'',
             Info no_data, Info no_data, Info no_data], None)"
proof -
  from assms(1) have g:
    "getcol dff ''Actual_Volatility'' = Inr (actual_of dff)"
    "getcol dff ''GARCH_Volatility'' = Inr (garch_of dff)"
    "getcol dff ''Predicted_Volatility'' = Inr (hybrid_of dff)"
    by (simp_all add: has_schema_def getcol_present actual_of_def garch_of_def hybrid_of_def)
  from assms(2) have "empty_frame dff"
    by (simp add: empty_frame_def)
  then show ?thesis
    by (simp add: key_metrics_def raising_def g)
qed


lemma has_schema_scenario: "has_schema scenario_frame"
  by (simp add: has_schema_def scenario_frame_def header4_def)

lemma scenario_columns:
  "actual_of scenario_frame = [Some 1, Some 2, Some 3]"
  "garch_of scenario_frame = [Some 1, Some 2, Some 3]"
  "hybrid_of scenario_frame = [Some 2, Some 3, Some 4]"
  by (simp_all add: actual_of_def garch_of_def hybrid_of_def column_def scenario_frame_def
        line_def cell_def)

lemma has_schema_swapped: "has_schema swapped_frame"
  by (simp add: has_schema_def swapped_frame_def header4_def)

lemma swapped_columns:
  "actual_of swapped_frame = [Some 1, Some 2, Some 3]"
  "garch_of swapped_frame = [Some 2, Some 3, Some 4]"
  "hybrid_of swapped_frame = [Some 1, Some 2, Some 3]"
  by (simp_all add: actual_of_def garch_of_def hybrid_of_def column_def swapped_frame_def
        line_def cell_def)

lemma scenario_rmse:
  "rmse [Some 1, Some 2, Some 3] [Some 1, Some 2, Some 3] = Some 0"
  "rmse [Some 1, Some 2, Some 3] [Some 2, Some 3, Some 4] = Some 1"
  by (simp_all add: rmse_is_spec rmse_spec_def both_present_def)

lemma has_schema_filtered: "has_schema (df_filtered df s e) = has_schema df"
  by (simp add: has_schema_def columns_df_filtered)

lemma scenario_gap: "rows (df_filtered scenario_frame 3 5) = []"
  by (simp add: rows_df_filtered scenario_frame_def in_range_def date_of_def day_def)

text \<open>
  C2. For a filtered table with the three volatility columns: when it has records, the two
  RMSE values shown are, for each model, the square root of the mean of the squared
  differences between the actual value and the model's prediction, taken over the records
  where both are present (\<open>NaN\<close> when there is no such record); when it has no record,
  the three metrics show the "no data" message instead.
\<close>

theorem rmse_reported:
  assumes "has_schema dff"
  shows "(rows dff \<noteq> [] \<longrightarrow>
            (\<exists>delta m. key_metrics dff =
               ([Subheader ''Model Performance at a Glance'',
                 Metric ''GARCH RMSE'' (Fmt 4 (rmse_spec (actual_of dff) (garch_of dff)) []) None,
                 Metric ''LSTM+GARCH RMSE''
                   (Fmt 4 (rmse_spec (actual_of dff) (hybrid_of dff)) []) delta,
                 m], None)))
       \<and> (rows dff = [] \<longrightarrow>
            key_metrics dff =
              ([Subheader ''Model Performance at a Glance'',
                Info no_data, Info no_data, Info no_data], None))"
  using assms by (simp add: key_metrics_nonempty key_metrics_empty rmse_is_spec)

theorem rmse_reported_witness:
  "has_schema scenario_frame \<and> rows scenario_frame \<noteq> []
   \<and> (\<exists>delta m. key_metrics scenario_frame =
         ([Subheader ''Model Performance at a Glance'',
           Metric ''GARCH RMSE'' (Fmt 4 (Some 0) []) None,
           Metric ''LSTM+GARCH RMSE'' (Fmt 4 (Some 1) []) delta, m], None))
   \<and> has_schema (df_filtered scenario_frame 3 5) \<and> rows (df_filtered scenario_frame 3 5) = []
   \<and> key_metrics (df_filtered scenario_frame 3 5) =
        ([Subheader ''Model Performance at a Glance'',
          Info no_data, Info no_data, Info no_data], None)"
proof -
  have ne: "rows scenario_frame \<noteq> []"
    by (simp add: scenario_frame_def)
  have hs: "has_schema (df_filtered scenario_frame 3 5)"
    by (simp add: has_schema_filtered has_schema_scenario)
  have sp: "rmse_spec [Some 1, Some 2, Some 3] [Some 1, Some 2, Some 3] = Some 0"
           "rmse_spec [Some 1, Some 2, Some 3] [Some 2, Some 3, Some 4] = Some 1"
    by (simp_all add: rmse_spec_def both_present_def)
  show ?thesis
    using rmse_reported [OF has_schema_scenario] rmse_reported [OF hs] ne scenario_gap hs
      has_schema_scenario
    by (simp add: scenario_columns sp)
qed

text \<open>
  C3. For a filtered table with records (and the three volatility columns), the improvement
  shown is \<open>(rmse_garch - rmse_lstm) / rmse_garch * 100\<close> when the two RMSE values are
  numbers and \<open>rmse_garch\<close> is not 0, and it is exactly 0 when \<open>rmse_garch\<close> is 0; the
  section raises nothing in either case. (A \<open>rmse_garch\<close> that is \<open>NaN\<close>, no record
  having both values, is not 0: the formula then gives \<open>NaN\<close>.)
\<close>

theorem improvement_policy:
  assumes "has_schema dff" and "rows dff \<noteq> []"
  shows "\<exists>imp. key_metrics dff =
           ([Subheader ''Model Performance at a Glance'',
             Metric ''GARCH RMSE'' (Fmt 4 (rmse (actual_of dff) (garch_of dff)) []) None,
             Metric ''LSTM+GARCH RMSE'' (Fmt 4 (rmse (actual_of dff) (hybrid_of dff)) [])
               (Some (Fmt 1 imp ''%'')),
             Metric ''Improvement'' (Fmt 1 imp ''%'') (Some (Lit ''vs GARCH''))], None)
         \<and> (\<forall>g l. rmse (actual_of dff) (garch_of dff) = Some g
                 \<and> rmse (actual_of dff) (hybrid_of dff) = Some l \<and> g \<noteq> 0
                 \<longrightarrow> imp = Some ((g - l) / g * 100))
         \<and> (rmse (actual_of dff) (garch_of dff) = Some 0 \<longrightarrow> imp = Some 0)
         \<and> (rmse (actual_of dff) (garch_of dff) = None \<longrightarrow> imp = None)"
proof -
  let ?imp = "improvement (rmse (actual_of dff) (garch_of dff))
                          (rmse (actual_of dff) (hybrid_of dff))"
  have formula: "\<forall>g l. rmse (actual_of dff) (garch_of dff) = Some g
            \<and> rmse (actual_of dff) (hybrid_of dff) = Some l \<and> g \<noteq> 0
            \<longrightarrow> ?imp = Some ((g - l) / g * 100)"
    by (simp add: improvement_def fsub_def fdiv_def fmul_def)
  have zero: "rmse (actual_of dff) (garch_of dff) = Some 0 \<longrightarrow> ?imp = Some 0"
    by (simp add: improvement_def)
  have nan: "rmse (actual_of dff) (garch_of dff) = None \<longrightarrow> ?imp = None"
    by (simp add: improvement_def fsub_def fdiv_def fmul_def)
  show ?thesis
  proof (intro exI [of _ ?imp] conjI)
    show "key_metrics dff =
           ([Subheader ''Model Performance at a Glance'',
             Metric ''GARCH RMSE'' (Fmt 4 (rmse (actual_of dff) (garch_of dff)) []) None,
             Metric ''LSTM+GARCH RMSE'' (Fmt 4 (rmse (actual_of dff) (hybrid_of dff)) [])
               (Some (Fmt 1 ?imp ''%'')),
             Metric ''Improvement'' (Fmt 1 ?imp ''%'') (Some (Lit ''vs GARCH''))], None)"
      by (rule key_metrics_nonempty [OF assms])
  qed (rule formula zero nan)+
qed

theorem improvement_policy_witness:
  "has_schema scenario_frame \<and> rows scenario_frame \<noteq> []
   \<and> key_metrics scenario_frame =
       ([Subheader ''Model Performance at a Glance'',
         Metric ''GARCH RMSE'' (Fmt 4 (Some 0) []) None,
         Metric ''LSTM+GARCH RMSE'' (Fmt 4 (Some 1) []) (Some (Fmt 1 (Some 0) ''%'')),
         Metric ''Improvement'' (Fmt 1 (Some 0) ''%'') (Some (Lit ''vs GARCH''))], None)
   \<and> has_schema swapped_frame \<and> rows swapped_frame \<noteq> []
   \<and> key_metrics swapped_frame =
       ([Subheader ''Model Performance at a Glance'',
         Metric ''GARCH RMSE'' (Fmt 4 (Some 1) []) None,
         Metric ''LSTM+GARCH RMSE'' (Fmt 4 (Some 0) []) (Some (Fmt 1 (Some 100) ''%'')),
         Metric ''Improvement'' (Fmt 1 (Some 100) ''%'') (Some (Lit ''vs GARCH''))], None)"
proof -
  have ne: "rows scenario_frame \<noteq> []" "rows swapped_frame \<noteq> []"
    by (simp_all add: scenario_frame_def swapped_frame_def)
  have a: "key_metrics scenario_frame =
       ([Subheader ''Model Performance at a Glance'',
         Metric ''GARCH RMSE'' (Fmt 4 (Some 0) []) None,
         Metric ''LSTM+GARCH RMSE'' (Fmt 4 (Some 1) []) (Some (Fmt 1 (Some 0) ''%'')),
         Metric ''Improvement'' (Fmt 1 (Some 0) ''%'') (Some (Lit ''vs GARCH''))], None)"
    using improvement_policy [OF has_schema_scenario ne(1)]
    by (auto simp: scenario_columns scenario_rmse)
  have b: "key_metrics swapped_frame =
       ([Subheader ''Model Performance at a Glance'',
         Metric ''GARCH RMSE'' (Fmt 4 (Some 1) []) None,
         Metric ''LSTM+GARCH RMSE'' (Fmt 4 (Some 0) []) (Some (Fmt 1 (Some 100) ''%'')),
         Metric ''Improvement'' (Fmt 1 (Some 100) ''%'') (Some (Lit ''vs GARCH''))], None)"
    using improvement_policy [OF has_schema_swapped ne(2)]
    by (auto simp: swapped_columns scenario_rmse)
  from a b ne has_schema_scenario has_schema_swapped show ?thesis by simp
qed

text \<open>
  C5. When the filtered table has no record (the table having the three volatility
  columns), the metrics section raises nothing and shows the "no data" message in each of
  its three places; it shows no RMSE and no improvement.
\<close>

theorem metrics_empty_no_raise:
  assumes "has_schema df" and "rows (df_filtered df s e) = []"
  shows "snd (key_metrics (df_filtered df s e)) = None
       \<and> fst (key_metrics (df_filtered df s e)) =
           [Subheader ''Model Performance at a Glance'',
            Info no_data, Info no_data, Info no_data]"
  using assms by (simp add: key_metrics_empty has_schema_filtered)

theorem metrics_empty_no_raise_witness:
  "has_schema scenario_frame \<and> rows (df_filtered scenario_frame 3 5) = []
   \<and> snd (key_metrics (df_filtered scenario_frame 3 5)) = None
   \<and> fst (key_metrics (df_filtered scenario_frame 3 5)) =
       [Subheader ''Model Performance at a Glance'', Info no_data, Info no_data, Info no_data]"
  using metrics_empty_no_raise [OF has_schema_scenario scenario_gap]
    has_schema_scenario scenario_gap
  by simp

subsection \<open>The overlay chart\<close>

lemma scatter_present:
  "c \<in> set (columns dff) \<Longrightarrow>
     scatter dff c nm = Inr \<lparr>tr_name = nm, tr_x = date_col dff, tr_y = column dff c\<rparr>"
  by (simp add: scatter_def getcol_present)

lemma points_scatter:
  "points \<lparr>tr_name = nm, tr_x = date_col dff, tr_y = column dff c\<rparr> = column_points dff c"
  by (simp add: points_def date_col_def column_def column_points_def zip_map_map zip_same_conv_map)

text \<open>
  C4. For every filtered table with the three volatility columns and every pair of
  toggles, the overlay chart has the series of the actual volatility first, then the GARCH
  series exactly when \<open>show_garch\<close> is set, then the hybrid series exactly when
  \<open>show_lstm\<close> is set, and nothing else: with both toggles off it has the actual
  series alone. The points of each series are the (date, value) pairs of its column, in
  the order of the table.
\<close>

theorem overlay_series:
  assumes "has_schema dff"
  shows "\<exists>ts. main_chart dff sg sl =
                ([Subheader ''Volatility Forecast vs Actual'', PlotlyChart (Figure ts)], None)
         \<and> map tr_name ts =
             ''Actual Volatility'' # (if sg then [''GARCH Forecast''] else [])
               @ (if sl then [''LSTM+GARCH Forecast''] else [])
         \<and> map points ts =
             column_points dff ''Actual_Volatility''
               # (if sg then [column_points dff ''GARCH_Volatility''] else [])
               @ (if sl then [column_points dff ''Predicted_Volatility''] else [])
         \<and> (''GARCH Forecast'' \<in> set (map tr_name ts) \<longleftrightarrow> sg)
         \<and> (''LSTM+GARCH Forecast'' \<in> set (map tr_name ts) \<longleftrightarrow> sl)"
  using assms
  by (simp add: main_chart_def raising_def add_trace_if_def has_schema_def scatter_present
        points_scatter)

theorem overlay_series_witness:
  "has_schema scenario_frame
   \<and> (\<exists>ts. main_chart scenario_frame False False =
              ([Subheader ''Volatility Forecast vs Actual'', PlotlyChart (Figure ts)], None)
          \<and> map tr_name ts = [''Actual Volatility'']
          \<and> map points ts =
              [[(Some (day 1), Some 1), (Some (day 2), Some 2), (Some (day 10), Some 3)]])
   \<and> (\<exists>ts. main_chart scenario_frame True False =
              ([Subheader ''Volatility Forecast vs Actual'', PlotlyChart (Figure ts)], None)
          \<and> map tr_name ts = [''Actual Volatility'', ''GARCH Forecast''])"
proof -
  have p: "column_points scenario_frame ''Actual_Volatility'' =
             [(Some (day 1), Some 1), (Some (day 2), Some 2), (Some (day 10), Some 3)]"
    by (simp add: column_points_def scenario_frame_def line_def cell_def)
  show ?thesis
    using overlay_series [OF has_schema_scenario, of False False]
      overlay_series [OF has_schema_scenario, of True False] has_schema_scenario
    by (auto simp: p)
qed

subsection \<open>The load\<close>

lemma load_data_csv:
  assumes "fs data_path = Csv header lines" and "''Date'' \<in> set header"
    and "Unparsable \<notin> set (map date_text lines)"
  shows "load_data fs =
           Inr \<lparr>columns = header,
                rows = map (\<lambda>l. \<lparr>Date = cell_timestamp (date_text l), cells = num_cells l\<rparr>) lines\<rparr>"
proof -
  have "map2 (\<lambda>d l. \<lparr>Date = d, cells = num_cells l\<rparr>) (map cell_timestamp (map date_text lines)) lines
        = map (\<lambda>l. \<lparr>Date = cell_timestamp (date_text l), cells = num_cells l\<rparr>) lines"
    by (induction lines) simp_all
  with assms show ?thesis
    by (simp add: load_data_def read_csv_def to_datetime_def)
qed

lemma load_data_bad_date:
  assumes "fs data_path = Csv header lines" and "''Date'' \<in> set header"
    and "Unparsable \<in> set (map date_text lines)"
  shows "load_data fs = Inl ValueError"
  using assms by (simp add: load_data_def read_csv_def to_datetime_def)

lemma load_scenario: "load_data (disk scenario_file) = Inr scenario_frame"
  by (simp add: load_data_def read_csv_def to_datetime_def disk_def scenario_file_def
        scenario_frame_def header4_def line_def cell_timestamp_def)

lemma scenario_bounds: "min_date scenario_frame = Inr 1" "max_date scenario_frame = Inr 10"
  by (simp_all add: min_date_def max_date_def series_min_def series_max_def ts_date_def
        date_col_def scenario_frame_def date_of_def day_def)

text \<open>
  C8 fails as stated: a file whose second line has a date that does not parse is not loaded
  with that line dropped; the load raises \<open>ValueError\<close>.
\<close>

theorem bad_date_fails_load:
  "load_data (disk bad_date_file) = Inl ValueError"
  by (simp add: load_data_def read_csv_def to_datetime_def disk_def bad_date_file_def
        header4_def line_def)

text \<open>
  C8, amended. The load drops no row and reports no count: when the file has the \<open>Date\<close>
  column and a date of it does not parse, the load fails with \<open>ValueError\<close>; when every
  date is blank or parses, the loaded table has one record for each line of the file, in
  the order of the file, with the line's cells and its date, a blank date being kept as a
  missing date.
\<close>

theorem load_keeps_rows:
  assumes "fs data_path = Csv header lines" and "''Date'' \<in> set header"
  shows "(Unparsable \<in> set (map date_text lines) \<longrightarrow> load_data fs = Inl ValueError)
       \<and> (Unparsable \<notin> set (map date_text lines) \<longrightarrow>
            (\<exists>df. load_data fs = Inr df \<and> columns df = header
                 \<and> length (rows df) = length lines
                 \<and> map Date (rows df) = map (cell_timestamp \<circ> date_text) lines
                 \<and> map cells (rows df) = map num_cells lines))"
  using load_data_csv [where fs = fs, OF assms] load_data_bad_date [where fs = fs, OF assms]
  by (auto simp: comp_def)

theorem load_keeps_rows_witness:
  "disk scenario_file data_path = Csv header4
       [line (Parsable (day 1)) (Some 1) (Some 1) (Some 2),
        line (Parsable (day 2)) (Some 2) (Some 2) (Some 3),
        line (Parsable (day 10)) (Some 3) (Some 3) (Some 4)]
   \<and> ''Date'' \<in> set header4
   \<and> (\<exists>df. load_data (disk scenario_file) = Inr df \<and> length (rows df) = 3
          \<and> map Date (rows df) = [Some (day 1), Some (day 2), Some (day 10)])
   \<and> disk bad_date_file data_path = Csv header4
       [line (Parsable (day 1)) (Some 1) (Some 1) (Some 2),
        line Unparsable (Some 2) (Some 2) (Some 3)]
   \<and> load_data (disk bad_date_file) = Inl ValueError"
proof -
  have a: "disk scenario_file data_path = Csv header4
       [line (Parsable (day 1)) (Some 1) (Some 1) (Some 2),
        line (Parsable (day 2)) (Some 2) (Some 2) (Some 3),
        line (Parsable (day 10)) (Some 3) (Some 3) (Some 4)]"
    by (simp add: disk_def scenario_file_def)
  have b: "disk bad_date_file data_path = Csv header4
       [line (Parsable (day 1)) (Some 1) (Some 1) (Some 2),
        line Unparsable (Some 2) (Some 2) (Some 3)]"
    by (simp add: disk_def bad_date_file_def)
  have h: "''Date'' \<in> set header4"
    by (simp add: header4_def)
  show ?thesis
    using load_keeps_rows [where fs = "disk scenario_file", OF a h]
      load_keeps_rows [where fs = "disk bad_date_file", OF b h] a b h
    by (auto simp: line_def cell_timestamp_def)
qed







text \<open>
  C9. When the data file does not exist, the load fails with \<open>FileNotFoundError\<close>, and
  the pass stops there: after the title and the introduction of the page, which precede the
  load, it shows the error message and nothing else, so no metric, chart or table.
\<close>

theorem missing_file_stops:
  assumes "fs data_path = NoFile"
  shows "load_data fs = Inl FileNotFoundError
       \<and> render fs ctl = \<lparr>shown = page_header @ [Error not_found], outcome = Stopped\<rparr>
       \<and> \<not> list_ex is_view (shown (render fs ctl))"
  using assms
  by (simp add: render_def load_data_def read_csv_def page_header_def is_view_def)

theorem missing_file_stops_witness:
  "disk NoFile data_path = NoFile
   \<and> load_data (disk NoFile) = Inl FileNotFoundError
   \<and> render (disk NoFile) gap_controls =
       \<lparr>shown = [Title ''Crypto Volatility Forecasting Dashboard'',
                 Markdown ''Hybrid GARCH + LSTM Model'', Error not_found],
        outcome = Stopped\<rparr>"
proof -
  have h: "disk NoFile data_path = NoFile"
    by (simp add: disk_def)
  show ?thesis
    using missing_file_stops [where fs = "disk NoFile" and ctl = gap_controls, OF h] h
    by (simp add: page_header_def)
qed

subsection \<open>The empty state\<close>

lemma main_chart_empty:
  assumes "has_schema dff" and "rows dff = []"
  shows "main_chart dff sg sl =
           ([Subheader ''Volatility Forecast vs Actual'',
             PlotlyChart (Figure (empty_series ''Actual Volatility''
               # (if sg then [empty_series ''GARCH Forecast''] else [])
               @ (if sl then [empty_series ''LSTM+GARCH Forecast''] else [])))], None)"
  using assms
  by (simp add: main_chart_def raising_def add_trace_if_def has_schema_def scatter_present
        empty_series_def date_col_def column_def)

lemma error_distribution_empty:
  assumes "rows dff = []"
  shows "error_distribution dff =
           ([Subheader ''Forecast Error Distribution'', Info no_data_errors], None)"
  using assms by (simp add: error_distribution_def empty_frame_def)

lemma filtered_empty_frame:
  "rows (df_filtered df s e) = [] \<Longrightarrow> df_filtered df s e = df\<lparr>rows := []\<rparr>"
  by (simp add: df_filtered_def loc_def)

text \<open>
  C6 fails as stated: with the scenario's table and the range of the days 3 to 5, which
  holds no record, the pass still renders the overlay chart (its series without points) and
  the data table (without rows); neither is replaced by an informational placeholder.
\<close>

theorem empty_state_chart_and_table:
  "load_data (disk scenario_file) = Inr scenario_frame
   \<and> rows (df_filtered scenario_frame 3 5) = []
   \<and> PlotlyChart (Figure [empty_series ''Actual Volatility'', empty_series ''GARCH Forecast''])
        \<in> set (shown (render (disk scenario_file) gap_controls))
   \<and> Dataframe \<lparr>columns = header4, rows = []\<rparr>
        \<in> set (shown (render (disk scenario_file) gap_controls))"
proof -
  have f: "df_filtered scenario_frame 3 5 = \<lparr>columns = header4, rows = []\<rparr>"
    using filtered_empty_frame [OF scenario_gap] by (simp add: scenario_frame_def)
  have hs: "has_schema \<lparr>columns = header4, rows = []\<rparr>"
    by (simp add: has_schema_def header4_def)
  have "shown (render (disk scenario_file) gap_controls) =
          page_header @
          [SidebarHeader ''Dashboard Controls'', Slider 1 10 (3, 5),
           Checkbox ''Show GARCH Forecast'' True, Checkbox ''Show LSTM+GARCH Forecast'' False,
           Subheader ''Model Performance at a Glance'', Info no_data, Info no_data, Info no_data,
           Subheader ''Volatility Forecast vs Actual'',
           PlotlyChart (Figure [empty_series ''Actual Volatility'', empty_series ''GARCH Forecast'']),
           Subheader ''Forecast Error Distribution'', Info no_data_errors,
           Subheader ''Raw Forecast Data (Filtered)'', Dataframe \<lparr>columns = header4, rows = []\<rparr>]
          @ fst footer"
    by (simp add: render_def load_scenario scenario_bounds sections_def slider_def gap_controls_def
          f key_metrics_empty [OF hs] main_chart_empty [OF hs] error_distribution_empty
          data_table_def footer_def)
  then show ?thesis
    by (simp add: load_scenario scenario_gap)
qed

text \<open>
  C6, amended. When the filter result has no record (the table having the three volatility
  columns), the pass runs to its end and shows: the "no data" message in each of the three
  places of the metrics and one such message in place of the two error histograms, with no
  RMSE, improvement or residual computed; the overlay chart all the same, with the actual
  series and the series that the toggles select, each without points; and the data table
  all the same, without rows.
\<close>

theorem empty_state_views:
  assumes "load_data fs = Inr df" and "has_schema df"
    and "min_date df = Inr lo" and "max_date df = Inr hi"
    and "slider lo hi (date_range ctl) = (s, e)"
    and "rows (df_filtered df s e) = []"
  shows "render fs ctl =
           \<lparr>shown = page_header @
              [SidebarHeader ''Dashboard Controls'', Slider lo hi (s, e),
               Checkbox ''Show GARCH Forecast'' (show_garch ctl),
               Checkbox ''Show LSTM+GARCH Forecast'' (show_lstm ctl),
               Subheader ''Model Performance at a Glance'',
               Info no_data, Info no_data, Info no_data,
               Subheader ''Volatility Forecast vs Actual'',
               PlotlyChart (Figure (empty_series ''Actual Volatility''
                 # (if show_garch ctl then [empty_series ''GARCH Forecast''] else [])
                 @ (if show_lstm ctl then [empty_series ''LSTM+GARCH Forecast''] else []))),
               Subheader ''Forecast Error Distribution'', Info no_data_errors,
               Subheader ''Raw Forecast Data (Filtered)'', Dataframe (df\<lparr>rows := []\<rparr>)]
              @ fst footer,
            outcome = Finished\<rparr>"
proof -
  have f: "df_filtered df s e = df\<lparr>rows := []\<rparr>"
    using assms(6) by (rule filtered_empty_frame)
  have hs: "has_schema (df\<lparr>rows := []\<rparr>)"
    using assms(2) by (simp add: has_schema_def)
  have r: "rows (df\<lparr>rows := []\<rparr>) = []"
    by simp
  show ?thesis
    by (simp add: render_def assms(1,3,4,5) sections_def f key_metrics_empty [OF hs r]
          main_chart_empty [OF hs r] error_distribution_empty [OF r] data_table_def footer_def)
qed

theorem empty_state_views_witness:
  "load_data (disk scenario_file) = Inr scenario_frame \<and> has_schema scenario_frame
   \<and> min_date scenario_frame = Inr 1 \<and> max_date scenario_frame = Inr 10
   \<and> slider 1 10 (date_range gap_controls) = (3, 5)
   \<and> rows (df_filtered scenario_frame 3 5) = []
   \<and> render (disk scenario_file) gap_controls =
       \<lparr>shown = page_header @
          [SidebarHeader ''Dashboard Controls'', Slider 1 10 (3, 5),
           Checkbox ''Show GARCH Forecast'' True, Checkbox ''Show LSTM+GARCH Forecast'' False,
           Subheader ''Model Performance at a Glance'', Info no_data, Info no_data, Info no_data,
           Subheader ''Volatility Forecast vs Actual'',
           PlotlyChart (Figure [empty_series ''Actual Volatility'', empty_series ''GARCH Forecast'']),
           Subheader ''Forecast Error Distribution'', Info no_data_errors,
           Subheader ''Raw Forecast Data (Filtered)'', Dataframe \<lparr>columns = header4, rows = []\<rparr>]
          @ fst footer,
        outcome = Finished\<rparr>"
proof -
  have sl: "slider 1 10 (date_range gap_controls) = (3, 5)"
    by (simp add: slider_def gap_controls_def)
  show ?thesis
    using empty_state_views [OF load_scenario has_schema_scenario scenario_bounds sl scenario_gap]
      load_scenario has_schema_scenario scenario_bounds sl scenario_gap
    by (simp add: gap_controls_def scenario_frame_def)
qed

end
